theory Spec2Isabelle
  imports Main "HOL-Library.AList"
begin

section \<open>Data model of the target-workload-service controller\<close>

text \<open>
  A Go \<open>map[string]string\<close> is an association list, or \<open>None\<close> for the nil map. Reading
  a nil map finds nothing, ranging over it visits nothing, writing to it panics. A key has
  the value of its first pair in the list; \<open>entries\<close> is what a \<open>range\<close> visits, every key
  once. The order of the list stands for the order in which the runtime happens to
  iterate; a statement that holds for every list holds for every iteration order.
\<close>

type_synonym gomap = "(string \<times> string) list option"

definition entries :: "gomap \<Rightarrow> (string \<times> string) list" where
  "entries m = (case m of None \<Rightarrow> [] | Some kvs \<Rightarrow> AList.clearjunk kvs)"

definition index :: "gomap \<Rightarrow> string \<Rightarrow> string option" where
  "index m k = map_of (entries m) k"

record Service =
  svc_Namespace :: string
  svc_Name :: string
  svc_Annotations :: gomap
  svc_Selector :: gomap
  svc_DeletionTimestamp :: bool

record Pod =
  pod_Namespace :: string
  pod_Name :: string
  pod_Labels :: gomap
  pod_DeletionTimestamp :: bool

record Workload =
  wl_Namespace :: string
  wl_Name :: string
  wl_SelectorLabels :: gomap

datatype error =
    ListPodsError
  | ListPodsForWorkloadError string
  | UpdateServiceError
  | UpdatePodError string
  | GetServiceError string string
  | MatchingWorkloadsError
  | IndexOutOfRangePanic
  | NilMapAssignPanic

datatype logmsg =
    DebugFailedToUnmarshal
  | WarnFailedToFetchWorkload string

text \<open>
  The collaborators the controller is built on. The annotation names, the JSON decoder and
  the workload lister live outside the controller's file and are parameters: \<open>jsonUnmarshal\<close>
  gives the contents of the destination slice after the call and whether an error was
  returned; a lister returns \<open>None\<close> for an error. \<open>podCache\<close> and \<open>serviceCache\<close> are what
  the listers read; an update call goes to the API and does not change them during a sync.
\<close>

record Env =
  WorkloadAnnotation :: string
  WorkloadAnnotatioNoop :: string
  jsonUnmarshal :: "string \<Rightarrow> string list \<times> bool"
  GetByWorkloadID :: "string \<Rightarrow> Workload option"
  GetWorkloadsMatchingLabels :: "string \<Rightarrow> gomap \<Rightarrow> Workload list option"
  podCache :: "Pod list"
  podListFails :: "string \<Rightarrow> bool"
  serviceCache :: "Service list"
  servicesUpdateFails :: "Service \<Rightarrow> bool"
  podsUpdateFails :: "Pod \<Rightarrow> bool"

text \<open>
  What a sync changes: the registry \<open>workloadServiceUUIDToDeploymentUUIDs\<close> (service key to
  the keys of its \<open>map[string]bool\<close>), and the calls it issues, in order: service updates,
  pod updates, pod requeues and log lines.
\<close>

record World =
  workloadServiceUUIDToDeploymentUUIDs :: "(string \<times> string list) list"
  serviceUpdates :: "Service list"
  podUpdates :: "Pod list"
  enqueued :: "(string \<times> string) list"
  logged :: "logmsg list"

section \<open>Helpers\<close>

definition WorkloadIDLabelPrefix :: string where
  "WorkloadIDLabelPrefix = ''workloadID''"

definition getServiceSelector :: "string \<Rightarrow> string" where
  "getServiceSelector serviceName = WorkloadIDLabelPrefix @ ''_'' @ serviceName"

definition HasPrefix :: "string \<Rightarrow> string \<Rightarrow> bool" where
  "HasPrefix s p = (take (length p) s = p)"

text \<open>\<open>strings.Split(s, "/")\<close>: the pieces between the separators, at least one.\<close>

fun Split :: "string \<Rightarrow> char \<Rightarrow> string list" where
  "Split [] sep = [[]]"
| "Split (c # cs) sep =
     (if c = sep then [] # Split cs sep
      else (case Split cs sep of [] \<Rightarrow> [[c]] | piece # pieces \<Rightarrow> (c # piece) # pieces))"

text \<open>\<open>fmt.Sprintf("%s/%s", namespace, name)\<close>.\<close>

definition objectKey :: "string \<Rightarrow> string \<Rightarrow> string" where
  "objectKey namespace name = namespace @ ''/'' @ name"

text \<open>
  \<open>reflect.DeepEqual\<close> on two maps: both nil or both non-nil, and the same value under
  every key (which gives the same length).
\<close>

definition DeepEqual :: "gomap \<Rightarrow> gomap \<Rightarrow> bool" where
  "DeepEqual a b =
     (case (a, b) of
        (None, None) \<Rightarrow> True
      | (Some xs, Some ys) \<Rightarrow>
          list_all (\<lambda>k. map_of xs k = map_of ys k) (map fst xs @ map fst ys)
      | _ \<Rightarrow> False)"

text \<open>
  Modelled from the spec: the pod store's list by namespace and label selector
  (\<open>podLister.List\<close> with \<open>labels.SelectorFromSet\<close>), whose code is not in the controller's
  file. A pod matches when it carries every pair of the set; the empty set matches all.
\<close>

definition matchesSet :: "(string \<times> string) list \<Rightarrow> Pod \<Rightarrow> bool" where
  "matchesSet sel pod = list_all (\<lambda>(k, v). index (pod_Labels pod) k = Some v) sel"

definition podLister_List :: "Env \<Rightarrow> string \<Rightarrow> (string \<times> string) list \<Rightarrow> error + Pod list" where
  "podLister_List env namespace sel =
     (if podListFails env namespace then Inl ListPodsError
      else Inr (filter (\<lambda>pod. pod_Namespace pod = namespace \<and> matchesSet sel pod) (podCache env)))"

text \<open>
  Modelled from the spec: the service store's get by namespace and name
  (\<open>serviceLister.Get\<close>), whose code is not in the controller's file.
\<close>

definition serviceLister_Get :: "Env \<Rightarrow> string \<Rightarrow> string \<Rightarrow> error + Service" where
  "serviceLister_Get env namespace name =
     (case find (\<lambda>s. svc_Namespace s = namespace \<and> svc_Name s = name) (serviceCache env) of
        None \<Rightarrow> Inl (GetServiceError namespace name)
      | Some s \<Rightarrow> Inr s)"

section \<open>The service controller\<close>

definition isWorkloadService :: "Env \<Rightarrow> Service \<Rightarrow> string list \<times> logmsg list" where
  "isWorkloadService env obj =
     (case svc_Annotations obj of
        None \<Rightarrow> ([], [])
      | Some anns \<Rightarrow>
          (case map_of anns (WorkloadAnnotation env) of
             None \<Rightarrow> ([], [])
           | Some v \<Rightarrow>
               if v = [] then ([], [])
               else if map_of anns (WorkloadAnnotatioNoop env) = Some ''true'' then ([], [])
               else (case jsonUnmarshal env v of
                       (workloadIDs, failed) \<Rightarrow>
                         (workloadIDs, if failed then [DebugFailedToUnmarshal] else []))))"

definition updateServiceWorkloadPods :: "Env \<Rightarrow> string \<Rightarrow> World \<Rightarrow> error option \<times> World" where
  "updateServiceWorkloadPods env key w =
     (let splitted = Split key CHR ''/'' in
      if length splitted < 2 then (Some IndexOutOfRangePanic, w)
      else
        let namespace = splitted ! 0;
            serviceName = splitted ! 1;
            selectorToCheck = getServiceSelector serviceName
        in (case podLister_List env namespace [(selectorToCheck, ''true'')] of
              Inl e \<Rightarrow> (Some e, w)
            | Inr pods \<Rightarrow>
                (None, w\<lparr>enqueued := enqueued w @ map (\<lambda>pod. (namespace, pod_Name pod)) pods\<rparr>)))"

text \<open>The inner loop of \<open>updatePods\<close> over the service's selector, for one listed pod.\<close>

fun queuePod :: "(string \<times> string) list \<Rightarrow> Pod \<Rightarrow> Pod list \<Rightarrow> Pod list" where
  "queuePod [] pod podsToUpdate = podsToUpdate"
| "queuePod ((svcSelectorKey, svcSelectorValue) # rest) pod podsToUpdate =
     (if index (pod_Labels pod) svcSelectorKey = Some svcSelectorValue
      then queuePod rest pod podsToUpdate
      else queuePod rest pod (podsToUpdate @ [pod]))"

fun queuePods :: "(string \<times> string) list \<Rightarrow> Pod list \<Rightarrow> Pod list \<Rightarrow> Pod list" where
  "queuePods sel [] podsToUpdate = podsToUpdate"
| "queuePods sel (pod # pods) podsToUpdate =
     (if pod_DeletionTimestamp pod then queuePods sel pods podsToUpdate
      else queuePods sel pods (queuePod sel pod podsToUpdate))"

text \<open>The first loop of \<open>updatePods\<close>, over the declared workload identifiers.\<close>

fun collectPods ::
  "Env \<Rightarrow> Service \<Rightarrow> string list \<Rightarrow> Pod list \<Rightarrow> string list \<Rightarrow> World
     \<Rightarrow> (error + Pod list \<times> string list) \<times> World" where
  "collectPods env obj [] podsToUpdate targetWorkloadUUIDs w =
     (Inr (podsToUpdate, targetWorkloadUUIDs), w)"
| "collectPods env obj (workloadID # rest) podsToUpdate targetWorkloadUUIDs w =
     (case GetByWorkloadID env workloadID of
        None \<Rightarrow>
          collectPods env obj rest podsToUpdate targetWorkloadUUIDs
            (w\<lparr>logged := logged w @ [WarnFailedToFetchWorkload workloadID]\<rparr>)
      | Some targetWorkload \<Rightarrow>
          let targetWorkloadUUID = objectKey (wl_Namespace targetWorkload) (wl_Name targetWorkload);
              targetWorkloadUUIDs' =
                (if targetWorkloadUUID \<in> set targetWorkloadUUIDs then targetWorkloadUUIDs
                 else targetWorkloadUUIDs @ [targetWorkloadUUID])
          in (case podLister_List env (wl_Namespace targetWorkload)
                    (entries (wl_SelectorLabels targetWorkload)) of
                Inl e \<Rightarrow> (Inl (ListPodsForWorkloadError workloadID), w)
              | Inr pods \<Rightarrow>
                  collectPods env obj rest
                    (queuePods (entries (svc_Selector obj)) pods podsToUpdate)
                    targetWorkloadUUIDs' w))"

text \<open>\<open>toUpdate.Labels[key] = value\<close> for every pair of the selector.\<close>

fun assignAll :: "(string \<times> string) list \<Rightarrow> gomap \<Rightarrow> error + gomap" where
  "assignAll [] m = Inr m"
| "assignAll ((k, v) # kvs) m =
     (case m of
        None \<Rightarrow> Inl NilMapAssignPanic
      | Some xs \<Rightarrow> assignAll kvs (Some (AList.update k v xs)))"

text \<open>The second loop of \<open>updatePods\<close>, over the queued pods.\<close>

fun applyPodUpdates :: "Env \<Rightarrow> Service \<Rightarrow> Pod list \<Rightarrow> World \<Rightarrow> error option \<times> World" where
  "applyPodUpdates env obj [] w = (None, w)"
| "applyPodUpdates env obj (pod # rest) w =
     (case assignAll (entries (svc_Selector obj)) (pod_Labels pod) of
        Inl e \<Rightarrow> (Some e, w)
      | Inr labels \<Rightarrow>
          let toUpdate = pod\<lparr>pod_Labels := labels\<rparr>;
              w' = w\<lparr>podUpdates := podUpdates w @ [toUpdate]\<rparr>
          in if podsUpdateFails env toUpdate then (Some (UpdatePodError (pod_Name pod)), w')
             else applyPodUpdates env obj rest w')"

definition updatePods ::
  "Env \<Rightarrow> string \<Rightarrow> Service \<Rightarrow> string list \<Rightarrow> World \<Rightarrow> (error + string list) \<times> World" where
  "updatePods env serviceName obj workloadIDs w =
     (case collectPods env obj workloadIDs [] [] w of
        (Inl e, w1) \<Rightarrow> (Inl e, w1)
      | (Inr (podsToUpdate, targetWorkloadUUIDs), w1) \<Rightarrow>
          (case applyPodUpdates env obj podsToUpdate w1 of
             (Some e, w2) \<Rightarrow> (Inl e, w2)
           | (None, w2) \<Rightarrow> (Inr targetWorkloadUUIDs, w2)))"

definition reconcilePods ::
  "Env \<Rightarrow> string \<Rightarrow> Service \<Rightarrow> string list \<Rightarrow> World \<Rightarrow> (error + string list) \<times> World" where
  "reconcilePods env key obj0 workloadIDs w =
     (let obj = obj0\<lparr>svc_Selector := Some (entries (svc_Selector obj0))\<rparr>;
          selectorToAdd = getServiceSelector (svc_Name obj)
      in if index (svc_Selector obj) selectorToAdd = None then
           let toUpdate =
                 obj\<lparr>svc_Selector :=
                       Some (AList.update selectorToAdd ''true'' (entries (svc_Selector obj)))\<rparr>;
               w' = w\<lparr>serviceUpdates := serviceUpdates w @ [toUpdate]\<rparr>
           in if servicesUpdateFails env toUpdate then (Inl UpdateServiceError, w')
              else updatePods env key obj workloadIDs w'
         else updatePods env key obj workloadIDs w)"

definition removeService :: "Env \<Rightarrow> string \<Rightarrow> World \<Rightarrow> error option \<times> World" where
  "removeService env key w =
     (case (if map_of (workloadServiceUUIDToDeploymentUUIDs w) key \<noteq> None
            then updateServiceWorkloadPods env key w else (None, w)) of
        (Some e, w1) \<Rightarrow> (Some e, w1)
      | (None, w1) \<Rightarrow>
          (None, w1\<lparr>workloadServiceUUIDToDeploymentUUIDs :=
                      AList.delete key (workloadServiceUUIDToDeploymentUUIDs w1)\<rparr>))"

definition needsCleanup :: "string list option \<Rightarrow> string list \<Rightarrow> bool" where
  "needsCleanup oldMap targetWorkloadUUIDs =
     (case oldMap of
        None \<Rightarrow> False
      | Some old \<Rightarrow> list_ex (\<lambda>workloadID. workloadID \<notin> set targetWorkloadUUIDs) old)"

definition Controller_sync :: "Env \<Rightarrow> string \<Rightarrow> Service option \<Rightarrow> World \<Rightarrow> error option \<times> World" where
  "Controller_sync env key objOpt w =
     (case objOpt of
        None \<Rightarrow> removeService env key w
      | Some obj \<Rightarrow>
          if svc_DeletionTimestamp obj then removeService env key w
          else
            (case isWorkloadService env obj of
               (workloadIDs, msgs) \<Rightarrow>
                 let w0 = w\<lparr>logged := logged w @ msgs\<rparr>
                 in if length workloadIDs = 0 then (None, w0)
                    else
                      (case reconcilePods env key obj workloadIDs w0 of
                         (Inl e, w1) \<Rightarrow> (Some e, w1)
                       | (Inr targetWorkloadUUIDs, w1) \<Rightarrow>
                           (case (if needsCleanup
                                       (map_of (workloadServiceUUIDToDeploymentUUIDs w1) key)
                                       targetWorkloadUUIDs
                                  then updateServiceWorkloadPods env key w1 else (None, w1)) of
                              (Some e, w2) \<Rightarrow> (Some e, w2)
                            | (None, w2) \<Rightarrow>
                                (None,
                                 w2\<lparr>workloadServiceUUIDToDeploymentUUIDs :=
                                      AList.update key targetWorkloadUUIDs
                                        (workloadServiceUUIDToDeploymentUUIDs w2)\<rparr>)))))"

section \<open>The pod controller\<close>

text \<open>One \<open>Range\<close> over the registry for the key of one matched workload.\<close>

definition rangeRegistry :: "(string \<times> string list) list \<Rightarrow> string \<Rightarrow> string list" where
  "rangeRegistry reg deploymentUUID =
     map fst (filter (\<lambda>(k, v). deploymentUUID \<in> set v) (AList.clearjunk reg))"

definition collectServiceUUIDs :: "(string \<times> string list) list \<Rightarrow> Workload list \<Rightarrow> string list" where
  "collectServiceUUIDs reg workloads =
     concat (map (\<lambda>d. rangeRegistry reg (objectKey (wl_Namespace d) (wl_Name d))) workloads)"

text \<open>
  The head of the merge loop's body: the name is cut out of the registry's service key and
  the service is fetched under the namespace of the pod.
\<close>

definition getWorkloadService :: "Env \<Rightarrow> Pod \<Rightarrow> string \<Rightarrow> error + Service" where
  "getWorkloadService env obj workloadServiceUUID =
     (let splitted = Split workloadServiceUUID CHR ''/'' in
      if length splitted < 2 then Inl IndexOutOfRangePanic
      else serviceLister_Get env (pod_Namespace obj) (splitted ! 1))"

text \<open>The loop that fetches each collected service and merges its selector.\<close>

fun mergeServiceLabels ::
  "Env \<Rightarrow> Pod \<Rightarrow> string list \<Rightarrow> (string \<times> string) list \<Rightarrow> error + (string \<times> string) list" where
  "mergeServiceLabels env obj [] workloadServicesLabels = Inr workloadServicesLabels"
| "mergeServiceLabels env obj (workloadServiceUUID # rest) workloadServicesLabels =
     (case getWorkloadService env obj workloadServiceUUID of
        Inl e \<Rightarrow> Inl e
      | Inr workload \<Rightarrow>
          mergeServiceLabels env obj rest
            (fold (\<lambda>(key, v). AList.update key v) (entries (svc_Selector workload))
               workloadServicesLabels))"

text \<open>The two loops that rebuild the pod's labels.\<close>

definition keepLabel :: "(string \<times> string) list \<Rightarrow> string \<times> string \<Rightarrow> bool" where
  "keepLabel workloadServicesLabels kv =
     (\<not> (HasPrefix (fst kv) WorkloadIDLabelPrefix \<and> map_of workloadServicesLabels (fst kv) = None))"

definition rebuildLabels ::
  "gomap \<Rightarrow> (string \<times> string) list \<Rightarrow> (string \<times> string) list" where
  "rebuildLabels old workloadServicesLabels =
     fold (\<lambda>(key, v). AList.update key v) workloadServicesLabels
       (fold (\<lambda>(key, v). AList.update key v)
          (filter (keepLabel workloadServicesLabels) (entries old)) [])"

definition PodController_sync :: "Env \<Rightarrow> string \<Rightarrow> Pod option \<Rightarrow> World \<Rightarrow> error option \<times> World" where
  "PodController_sync env key objOpt w =
     (case objOpt of
        None \<Rightarrow> (None, w)
      | Some obj \<Rightarrow>
          if pod_DeletionTimestamp obj then (None, w)
          else
            (case GetWorkloadsMatchingLabels env (pod_Namespace obj) (pod_Labels obj) of
               None \<Rightarrow> (Some MatchingWorkloadsError, w)
             | Some workloads \<Rightarrow>
                 let workloadServiceUUIDToAdd =
                       collectServiceUUIDs (workloadServiceUUIDToDeploymentUUIDs w) workloads
                 in (case mergeServiceLabels env obj workloadServiceUUIDToAdd [] of
                       Inl e \<Rightarrow> (Some e, w)
                     | Inr workloadServicesLabels \<Rightarrow>
                         let labels = rebuildLabels (pod_Labels obj) workloadServicesLabels;
                             toUpdate = obj\<lparr>pod_Labels := Some labels\<rparr>
                         in if DeepEqual (pod_Labels obj) (Some labels) then (None, w)
                            else
                              let w' = w\<lparr>podUpdates := podUpdates w @ [toUpdate]\<rparr>
                              in if podsUpdateFails env toUpdate
                                 then (Some (UpdatePodError (pod_Name obj)), w')
                                 else (None, w'))))"

section \<open>Vocabulary of the statements\<close>

text \<open>
  A pod misses a pair of the service's selector; a pod is a member of one of the workloads
  that the declared identifiers resolve to; an update \<open>u\<close> is the pod with every pair of the
  service's selector assigned to its labels and nothing else changed.
\<close>

definition missesPair :: "Service \<Rightarrow> Pod \<Rightarrow> bool" where
  "missesPair obj pod =
     list_ex (\<lambda>(k, v). index (pod_Labels pod) k \<noteq> Some v) (entries (svc_Selector obj))"

definition memberOfTarget :: "Env \<Rightarrow> string list \<Rightarrow> Pod \<Rightarrow> bool" where
  "memberOfTarget env workloadIDs pod =
     list_ex (\<lambda>workloadID.
                case GetByWorkloadID env workloadID of
                  None \<Rightarrow> False
                | Some tw \<Rightarrow> pod_Namespace pod = wl_Namespace tw \<and>
                             matchesSet (entries (wl_SelectorLabels tw)) pod)
       workloadIDs"

definition labelled :: "Service \<Rightarrow> Pod \<Rightarrow> Pod \<Rightarrow> bool" where
  "labelled obj pod u =
     (u = pod\<lparr>pod_Labels := pod_Labels u\<rparr> \<and>
      assignAll (entries (svc_Selector obj)) (pod_Labels pod) = Inr (pod_Labels u))"

text \<open>
  The pod updates that a run over the identifiers \<open>ids\<close> adds to the world: each is the
  labelling of a live member pod that misses a pair and, when the run succeeded, every such
  pod has one.
\<close>

definition podEffect :: "Env \<Rightarrow> Service \<Rightarrow> string list \<Rightarrow> bool \<Rightarrow> World \<Rightarrow> World \<Rightarrow> bool" where
  "podEffect env obj ids ok w w' =
     (\<exists>us. podUpdates w' = podUpdates w @ us \<and>
            (\<forall>u \<in> set us. \<exists>pod \<in> set (podCache env).
                memberOfTarget env ids pod \<and> \<not> pod_DeletionTimestamp pod \<and>
                missesPair obj pod \<and> labelled obj pod u) \<and>
            (ok \<longrightarrow>
               (\<forall>pod \<in> set (podCache env).
                   memberOfTarget env ids pod \<and> \<not> pod_DeletionTimestamp pod \<and>
                   missesPair obj pod \<longrightarrow> (\<exists>u \<in> set us. labelled obj pod u))))"

text \<open>
  Two services agree when no label key has different values in their selectors; the
  written labels of a world are its pod updates with the labels read as a mapping, which
  does not depend on the order of iteration.
\<close>

definition selectorsAgree :: "Service \<Rightarrow> Service \<Rightarrow> bool" where
  "selectorsAgree s t =
     list_all (\<lambda>(k, v). case index (svc_Selector t) k of None \<Rightarrow> True | Some v' \<Rightarrow> v' = v)
       (entries (svc_Selector s))"

definition writtenLabels :: "World \<Rightarrow> (string \<times> string \<times> (string \<Rightarrow> string option)) list" where
  "writtenLabels w =
     map (\<lambda>u. (pod_Namespace u, pod_Name u, index (pod_Labels u))) (podUpdates w)"

section \<open>Example clusters\<close>

text \<open>
  A small cluster to run the controllers on: a decoder that knows three annotation
  payloads (the third is a list with a number in it, for which the decoder reports an error
  after filling the slice), workloads looked up by name, and stores that never fail.
\<close>

definition exDecode :: "string \<Rightarrow> string list \<times> bool" where
  "exDecode v =
     (if v = ''[\"wl1\"]'' then ([''wl1''], False)
      else if v = ''[\"wl1\",\"wl2\"]'' then ([''wl1'', ''wl2''], False)
      else if v = ''[\"wl1\",5]'' then ([''wl1'', ''''], True)
      else ([], True))"

definition exMatching :: "Workload list \<Rightarrow> string \<Rightarrow> gomap \<Rightarrow> Workload list option" where
  "exMatching wls namespace labels =
     Some (filter (\<lambda>d. wl_Namespace d = namespace \<and>
                        list_all (\<lambda>(k, v). index labels k = Some v) (entries (wl_SelectorLabels d)))
             wls)"

definition exEnv :: "Workload list \<Rightarrow> Pod list \<Rightarrow> Service list \<Rightarrow> Env" where
  "exEnv wls pods svcs =
     \<lparr>WorkloadAnnotation = ''ids'', WorkloadAnnotatioNoop = ''noop'',
      jsonUnmarshal = exDecode,
      GetByWorkloadID = (\<lambda>workloadID. find (\<lambda>d. wl_Name d = workloadID) wls),
      GetWorkloadsMatchingLabels = exMatching wls,
      podCache = pods, podListFails = (\<lambda>namespace. False),
      serviceCache = svcs,
      servicesUpdateFails = (\<lambda>s. False), podsUpdateFails = (\<lambda>p. False)\<rparr>"

definition exWorld :: "(string \<times> string list) list \<Rightarrow> World" where
  "exWorld reg =
     \<lparr>workloadServiceUUIDToDeploymentUUIDs = reg, serviceUpdates = [], podUpdates = [],
      enqueued = [], logged = []\<rparr>"

definition exWorkload :: "string \<Rightarrow> (string \<times> string) list \<Rightarrow> Workload" where
  "exWorkload name sel =
     \<lparr>wl_Namespace = ''default'', wl_Name = name, wl_SelectorLabels = Some sel\<rparr>"

definition exPod :: "string \<Rightarrow> gomap \<Rightarrow> Pod" where
  "exPod name labels =
     \<lparr>pod_Namespace = ''default'', pod_Name = name, pod_Labels = labels,
      pod_DeletionTimestamp = False\<rparr>"

definition exService :: "string \<Rightarrow> (string \<times> string) list \<Rightarrow> gomap \<Rightarrow> Service" where
  "exService namespace anns sel =
     \<lparr>svc_Namespace = namespace, svc_Name = ''svc1'', svc_Annotations = Some anns,
      svc_Selector = sel, svc_DeletionTimestamp = False\<rparr>"

text \<open>
  The shrink scenario: \<open>svc1\<close> had targeted \<open>wl1\<close> and \<open>wl2\<close> and now declares \<open>wl1\<close> only;
  \<open>p1\<close> is a pod of \<open>wl1\<close>, \<open>p2\<close> a pod of \<open>wl2\<close>, both carry the label of \<open>svc1\<close>.
\<close>

definition shrinkService :: Service where
  "shrinkService =
     exService ''default'' [(''ids'', ''[\"wl1\"]'')] (Some [(''workloadID_svc1'', ''true'')])"

definition shrinkPod :: Pod where
  "shrinkPod = exPod ''p2'' (Some [(''app'', ''b''), (''workloadID_svc1'', ''true'')])"

definition shrinkEnv :: Env where
  "shrinkEnv =
     exEnv [exWorkload ''wl1'' [(''app'', ''a'')], exWorkload ''wl2'' [(''app'', ''b'')]]
       [exPod ''p1'' (Some [(''app'', ''a''), (''workloadID_svc1'', ''true'')]), shrinkPod]
       [shrinkService]"

definition shrinkWorld :: World where
  "shrinkWorld = exWorld [(''default/svc1'', [''default/wl1'', ''default/wl2''])]"

text \<open>
  Two services \<open>a\<close> and \<open>b\<close> of namespace \<open>default\<close> that both target \<open>wl1\<close>, a pod of
  \<open>wl1\<close>, and the registry with its two entries in either order.
\<close>

definition exNamed :: "string \<Rightarrow> (string \<times> string) list \<Rightarrow> Service" where
  "exNamed name sel = (exService ''default'' [] (Some sel))\<lparr>svc_Name := name\<rparr>"

definition orderPod :: Pod where
  "orderPod = exPod ''p1'' (Some [(''app'', ''x'')])"

definition orderEnv :: "Service list \<Rightarrow> Env" where
  "orderEnv svcs = exEnv [exWorkload ''wl1'' [(''app'', ''x'')]] [orderPod] svcs"

definition registryAB :: "(string \<times> string list) list" where
  "registryAB = [(''default/a'', [''default/wl1'']), (''default/b'', [''default/wl1''])]"

definition registryBA :: "(string \<times> string list) list" where
  "registryBA = [(''default/b'', [''default/wl1'']), (''default/a'', [''default/wl1''])]"

section \<open>Evaluation\<close>

lemmas ex_defs = exDecode_def exMatching_def exEnv_def exWorld_def exWorkload_def exPod_def
  exService_def
  shrinkService_def shrinkPod_def shrinkEnv_def shrinkWorld_def

lemmas order_defs = exNamed_def orderPod_def orderEnv_def registryAB_def registryBA_def

lemmas model_defs = entries_def index_def WorkloadIDLabelPrefix_def getServiceSelector_def
  HasPrefix_def objectKey_def DeepEqual_def matchesSet_def podLister_List_def
  serviceLister_Get_def isWorkloadService_def updateServiceWorkloadPods_def updatePods_def
  reconcilePods_def removeService_def needsCleanup_def Controller_sync_def rangeRegistry_def
  getWorkloadService_def Let_def
  collectServiceUUIDs_def keepLabel_def rebuildLabels_def PodController_sync_def

section \<open>A service that does not participate\<close>

text \<open>
  C1. The claim: a successful sync of a service that still exists but does not participate
  (opted out, or an empty identifier list) removes the registry entry stored under its key.
  The code returns as soon as the identifier list is empty and leaves the registry as it
  is. Here a service that had targeted \<open>wl1\<close> is opted out; after a successful sync its
  entry is still in the registry.
\<close>

theorem nonparticipating_sync_keeps_entry_counterexample:
  "\<not> svc_DeletionTimestamp
       (exService ''default'' [(''ids'', ''[\"wl1\"]''), (''noop'', ''true'')] None)
   \<and> fst (isWorkloadService (exEnv [] [] [])
            (exService ''default'' [(''ids'', ''[\"wl1\"]''), (''noop'', ''true'')] None)) = []
   \<and> fst (Controller_sync (exEnv [] [] []) ''default/svc1''
              (Some (exService ''default'' [(''ids'', ''[\"wl1\"]''), (''noop'', ''true'')] None))
              (exWorld [(''default/svc1'', [''default/wl1''])])) = None
   \<and> map_of (workloadServiceUUIDToDeploymentUUIDs
                (snd (Controller_sync (exEnv [] [] []) ''default/svc1''
                        (Some (exService ''default'' [(''ids'', ''[\"wl1\"]''), (''noop'', ''true'')]
                                 None))
                        (exWorld [(''default/svc1'', [''default/wl1''])]))))
         ''default/svc1''
       = Some [''default/wl1'']"
  by (simp add: ex_defs model_defs)

text \<open>
  C1, amended. A sync of a service that exists (present, not deletion-marked) and does not
  participate returns without error and changes nothing but the log: the registry, and
  with it any entry under the service's key, stays as it was, and no update or requeue is
  issued. An entry is removed only on the removal path.
\<close>

theorem nonparticipating_sync_is_noop:
  assumes "\<not> svc_DeletionTimestamp obj" and "fst (isWorkloadService env obj) = []"
  shows "Controller_sync env key (Some obj) w =
           (None, w\<lparr>logged := logged w @ snd (isWorkloadService env obj)\<rparr>)"
  using assms by (cases "isWorkloadService env obj") (simp add: Controller_sync_def)

theorem nonparticipating_sync_is_noop_witness:
  "\<not> svc_DeletionTimestamp (exService ''default'' [] None)
   \<and> fst (isWorkloadService (exEnv [] [] []) (exService ''default'' [] None)) = []
   \<and> Controller_sync (exEnv [] [] []) ''default/svc1'' (Some (exService ''default'' [] None))
         (exWorld [(''default/svc1'', [''default/wl1''])])
       = (None, exWorld [(''default/svc1'', [''default/wl1''])])"
proof -
  have a: "\<not> svc_DeletionTimestamp (exService ''default'' [] None)"
    by (simp add: exService_def)
  have b: "isWorkloadService (exEnv [] [] []) (exService ''default'' [] None) = ([], [])"
    by (simp add: isWorkloadService_def exService_def exEnv_def)
  from nonparticipating_sync_is_noop [OF a, of "exEnv [] [] []" "''default/svc1''"
      "exWorld [(''default/svc1'', [''default/wl1''])]"] a b
  show ?thesis by (simp add: exWorld_def)
qed

section \<open>The concrete scenario\<close>

text \<open>
  C5. The claim: service \<open>svc1\<close> in \<open>default\<close> targets \<open>wl1\<close>, \<open>wl1\<close> selects \<open>app = x\<close>, pod
  \<open>p1\<close> has labels \<open>app = x\<close>; after one sync of the service controller on \<open>svc1\<close> the pod's
  labels are \<open>app = x, workloadID_svc1 = true\<close>. The sync writes the selector term to a copy
  of the service and then labels pods from the service object it was given, whose selector
  is still empty: no pod update is issued.
\<close>

theorem first_sync_labels_no_pod_counterexample:
  "podUpdates (snd (Controller_sync
      (exEnv [exWorkload ''wl1'' [(''app'', ''x'')]] [exPod ''p1'' (Some [(''app'', ''x'')])] [])
      ''default/svc1'' (Some (exService ''default'' [(''ids'', ''[\"wl1\"]'')] None))
      (exWorld []))) = []"
  by (simp add: ex_defs model_defs)

text \<open>
  C5, amended. In that scenario the first sync on \<open>svc1\<close> writes the service with the
  selector \<open>workloadID_svc1 = true\<close>, stores \<open>default/wl1\<close> under \<open>default/svc1\<close> in the
  registry and issues no pod update; the next sync, on the service as written, issues no
  further service update and one pod update, which gives \<open>p1\<close> the labels
  \<open>app = x, workloadID_svc1 = true\<close>.
\<close>

theorem concrete_scenario_two_syncs:
  "(case Controller_sync
      (exEnv [exWorkload ''wl1'' [(''app'', ''x'')]] [exPod ''p1'' (Some [(''app'', ''x'')])] [])
      ''default/svc1'' (Some (exService ''default'' [(''ids'', ''[\"wl1\"]'')] None))
      (exWorld []) of
     (r1, w1) \<Rightarrow>
       r1 = None
       \<and> serviceUpdates w1 =
           [exService ''default'' [(''ids'', ''[\"wl1\"]'')] (Some [(''workloadID_svc1'', ''true'')])]
       \<and> podUpdates w1 = []
       \<and> workloadServiceUUIDToDeploymentUUIDs w1 = [(''default/svc1'', [''default/wl1''])]
       \<and> (case Controller_sync
               (exEnv [exWorkload ''wl1'' [(''app'', ''x'')]]
                  [exPod ''p1'' (Some [(''app'', ''x'')])] [])
               ''default/svc1''
               (Some (exService ''default'' [(''ids'', ''[\"wl1\"]'')]
                        (Some [(''workloadID_svc1'', ''true'')]))) w1 of
             (r2, w2) \<Rightarrow>
               r2 = None
               \<and> serviceUpdates w2 = serviceUpdates w1
               \<and> podUpdates w2 =
                   [exPod ''p1'' (Some [(''app'', ''x''), (''workloadID_svc1'', ''true'')])]))"
  by (simp add: ex_defs model_defs)

section \<open>How often a pod is queued\<close>

text \<open>
  C3. The claim: in one sync a pod of a resolved workload that misses selector pairs of the
  service is queued once and gets one update, however many pairs it misses. The inner loop
  of \<open>updatePods\<close> appends the pod for every pair it misses and does not leave the loop
  after the first. Here the service selects on \<open>tier = db\<close> and on its own term, pod \<open>p1\<close>
  has neither, and one sync issues two updates for \<open>p1\<close>.
\<close>

theorem pod_missing_two_pairs_updated_twice:
  "podUpdates (snd (Controller_sync
      (exEnv [exWorkload ''wl1'' [(''app'', ''x'')]] [exPod ''p1'' (Some [(''app'', ''x'')])] [])
      ''default/svc1''
      (Some (exService ''default'' [(''ids'', ''[\"wl1\"]'')]
               (Some [(''tier'', ''db''), (''workloadID_svc1'', ''true'')])))
      (exWorld [])))
   = [exPod ''p1'' (Some [(''app'', ''x''), (''tier'', ''db''), (''workloadID_svc1'', ''true'')]),
      exPod ''p1'' (Some [(''app'', ''x''), (''tier'', ''db''), (''workloadID_svc1'', ''true'')])]"
  by (simp add: ex_defs model_defs)

section \<open>A payload that fails to decode\<close>

text \<open>
  C9. The claim: when the annotation payload fails to decode, the sync behaves as for an
  empty list and acts on no partially decoded identifier. \<open>isWorkloadService\<close> logs the
  error and returns the slice as the decoder left it. For the payload \<open>["wl1",5]\<close> the
  decoder reports an error after filling the slice with \<open>wl1\<close> and an empty string; the
  sync then installs the selector, writes the registry, and (on a service that already has
  its selector term) labels the pod of \<open>wl1\<close>.
\<close>

theorem partial_decode_is_acted_on:
  "isWorkloadService (exEnv [] [] []) (exService ''default'' [(''ids'', ''[\"wl1\",5]'')] None)
     = ([''wl1'', ''''], [DebugFailedToUnmarshal])
   \<and> Controller_sync
       (exEnv [exWorkload ''wl1'' [(''app'', ''x'')]] [exPod ''p1'' (Some [(''app'', ''x'')])] [])
       ''default/svc1'' (Some (exService ''default'' [(''ids'', ''[\"wl1\",5]'')] None))
       (exWorld [])
     = (None,
        \<lparr>workloadServiceUUIDToDeploymentUUIDs = [(''default/svc1'', [''default/wl1''])],
         serviceUpdates =
           [exService ''default'' [(''ids'', ''[\"wl1\",5]'')]
              (Some [(''workloadID_svc1'', ''true'')])],
         podUpdates = [], enqueued = [],
         logged = [DebugFailedToUnmarshal, WarnFailedToFetchWorkload '''']\<rparr>)
   \<and> podUpdates (snd (Controller_sync
       (exEnv [exWorkload ''wl1'' [(''app'', ''x'')]] [exPod ''p1'' (Some [(''app'', ''x'')])] [])
       ''default/svc1''
       (Some (exService ''default'' [(''ids'', ''[\"wl1\",5]'')]
                (Some [(''workloadID_svc1'', ''true'')])))
       (exWorld [])))
     = [exPod ''p1'' (Some [(''app'', ''x''), (''workloadID_svc1'', ''true'')])]"
  by (simp add: ex_defs model_defs)

section \<open>The no-op guard of the pod controller\<close>

text \<open>
  C6. The claim: when the recomputed label set has the same keys and values as the pod's
  labels, the pod controller issues no update. The guard is \<open>reflect.DeepEqual\<close>, which
  tells a nil map from an empty one, and the recomputed map is never nil. A pod without
  labels (a nil map) that belongs to no workload has the recomputed set empty, the same
  keys and values as its own, and the sync still issues an update that writes the empty
  map.
\<close>

theorem pod_without_labels_is_updated:
  "entries None = entries (Some [])
   \<and> PodController_sync (exEnv [] [] []) ''default/p1'' (Some (exPod ''p1'' None)) (exWorld [])
       = (None, (exWorld [])\<lparr>podUpdates := [exPod ''p1'' (Some [])]\<rparr>)"
  by (simp add: ex_defs model_defs)

section \<open>Facts about the helpers\<close>

lemma Split_nonempty: "Split s sep \<noteq> []"
  by (induction s) (auto split: list.splits)

lemma Split_no_sep: "sep \<notin> set s \<Longrightarrow> Split s sep = [s]"
  by (induction s) auto

lemma Split_append_sep: "sep \<notin> set a \<Longrightarrow> Split (a @ sep # b) sep = a # Split b sep"
  by (induction a) auto

lemma Split_objectKey:
  "CHR ''/'' \<notin> set namespace \<Longrightarrow> CHR ''/'' \<notin> set name \<Longrightarrow>
     Split (objectKey namespace name) CHR ''/'' = [namespace, name]"
  by (simp add: objectKey_def Split_append_sep Split_no_sep)

lemma distinct_entries: "distinct (map fst (entries m))"
  by (cases m) (simp_all add: entries_def distinct_clearjunk)

lemma map_of_entries_Some: "map_of (entries (Some kvs)) = map_of kvs"
  by (simp add: entries_def map_of_clearjunk)

lemma index_Some: "index (Some kvs) k = map_of kvs k"
  by (simp add: index_def map_of_entries_Some)

lemma index_None: "index None k = None"
  by (simp add: index_def entries_def)

lemma entries_member_index: "(k, v) \<in> set (entries m) \<longleftrightarrow> index m k = Some v"
  unfolding index_def using distinct_entries [of m] by simp


lemma map_of_fold_update:
  "distinct (map fst kvs) \<Longrightarrow>
     map_of (fold (\<lambda>(key, v). AList.update key v) kvs acc) k =
       (case map_of kvs k of Some v \<Rightarrow> Some v | None \<Rightarrow> map_of acc k)"
proof (induction kvs arbitrary: acc)
  case Nil
  then show ?case by simp
next
  case (Cons p kvs)
  obtain a b where p: "p = (a, b)" by (cases p)
  from Cons.prems p have na: "map_of kvs a = None"
    by (simp add: map_of_eq_None_iff)
  from Cons.prems have d: "distinct (map fst kvs)" by simp
  show ?case
    using Cons.IH [OF d, of "AList.update a b acc"] na
    by (simp add: p update_conv' split: option.splits)
qed

lemma distinct_fold_update:
  "distinct (map fst acc) \<Longrightarrow> distinct (map fst (fold (\<lambda>(key, v). AList.update key v) kvs acc))"
  by (induction kvs arbitrary: acc) (auto simp: distinct_update)

lemma DeepEqual_Some_iff: "DeepEqual (Some xs) (Some ys) \<longleftrightarrow> map_of xs = map_of ys"
proof
  assume h: "DeepEqual (Some xs) (Some ys)"
  show "map_of xs = map_of ys"
  proof
    fix k
    show "map_of xs k = map_of ys k"
    proof (cases "k \<in> fst ` set xs \<union> fst ` set ys")
      case True
      with h show ?thesis by (auto simp: DeepEqual_def list_all_iff)
    next
      case False
      then have "map_of xs k = None" "map_of ys k = None"
        by (simp_all add: map_of_eq_None_iff)
      then show ?thesis by simp
    qed
  qed
next
  assume "map_of xs = map_of ys"
  then show "DeepEqual (Some xs) (Some ys)"
    by (simp add: DeepEqual_def list_all_iff)
qed

lemma DeepEqual_None_Some: "\<not> DeepEqual None (Some ys)"
  by (simp add: DeepEqual_def)

lemma map_of_filter_key:
  "map_of (filter (\<lambda>kv. P (fst kv)) kvs) k = (if P k then map_of kvs k else None)"
  by (induction kvs) auto

lemma map_of_filter_keep:
  "map_of (filter (keepLabel wsl) kvs) k =
     (if HasPrefix k WorkloadIDLabelPrefix \<and> map_of wsl k = None then None else map_of kvs k)"
proof -
  let ?P = "\<lambda>key. \<not> (HasPrefix key WorkloadIDLabelPrefix \<and> map_of wsl key = None)"
  have e: "keepLabel wsl = (\<lambda>kv. ?P (fst kv))"
    by (rule ext) (simp only: keepLabel_def)
  have "map_of (filter (keepLabel wsl) kvs) k = (if ?P k then map_of kvs k else None)"
    using map_of_filter_key [of ?P kvs k] unfolding e .
  then show ?thesis by auto
qed

lemma map_of_rebuildLabels:
  assumes "distinct (map fst wsl)"
  shows "map_of (rebuildLabels old wsl) k =
     (case map_of wsl k of
        Some v \<Rightarrow> Some v
      | None \<Rightarrow> if HasPrefix k WorkloadIDLabelPrefix then None else index old k)"
proof -
  have d: "distinct (map fst (filter (keepLabel wsl) (entries old)))"
    using distinct_entries [of old] by (simp add: distinct_map_filter)
  show ?thesis
    unfolding rebuildLabels_def
    by (simp add: map_of_fold_update [OF assms] map_of_fold_update [OF d]
        map_of_filter_keep index_def split: option.splits)
qed

section \<open>The namespace under which the pod controller fetches a service\<close>

lemma mergeServiceLabels_fails:
  "k \<in> set keys \<Longrightarrow> getWorkloadService env obj k = Inl e \<Longrightarrow>
     \<exists>e'. mergeServiceLabels env obj keys acc = Inl e'"
  by (induction keys arbitrary: acc) (auto split: sum.splits)

lemma getWorkloadService_objectKey:
  "CHR ''/'' \<notin> set ns \<Longrightarrow> CHR ''/'' \<notin> set name \<Longrightarrow>
     getWorkloadService env obj (objectKey ns name) = serviceLister_Get env (pod_Namespace obj) name"
  by (simp add: getWorkloadService_def Split_objectKey)

lemma serviceLister_Get_missing:
  "\<forall>s \<in> set (serviceCache env). \<not> (svc_Namespace s = namespace \<and> svc_Name s = name) \<Longrightarrow>
     serviceLister_Get env namespace name = Inl (GetServiceError namespace name)"
proof -
  assume "\<forall>s \<in> set (serviceCache env). \<not> (svc_Namespace s = namespace \<and> svc_Name s = name)"
  then have "find (\<lambda>s. svc_Namespace s = namespace \<and> svc_Name s = name) (serviceCache env) = None"
    unfolding find_None_iff by blast
  then show ?thesis by (simp add: serviceLister_Get_def)
qed

lemma serviceLister_Get_error:
  "serviceLister_Get env namespace name = Inl e \<Longrightarrow> e = GetServiceError namespace name"
  by (simp add: serviceLister_Get_def split: option.splits)

lemma mergeServiceLabels_error_kind:
  "mergeServiceLabels env obj keys acc = Inl e \<Longrightarrow>
   \<forall>k \<in> set keys. 2 \<le> length (Split k CHR ''/'') \<Longrightarrow>
     \<exists>n. e = GetServiceError (pod_Namespace obj) n"
proof (induction keys arbitrary: acc)
  case Nil
  then show ?case by simp
next
  case (Cons k rest)
  show ?case
  proof (cases "getWorkloadService env obj k")
    case (Inl e0)
    with Cons.prems(1) have "e = e0" by simp
    moreover from Cons.prems(2) have "\<not> length (Split k CHR ''/'') < 2" by simp
    with Inl have "serviceLister_Get env (pod_Namespace obj) (Split k CHR ''/'' ! 1) = Inl e0"
      by (simp add: getWorkloadService_def)
    then have "e0 = GetServiceError (pod_Namespace obj) (Split k CHR ''/'' ! 1)"
      by (rule serviceLister_Get_error)
    ultimately show ?thesis by blast
  next
    case (Inr s)
    with Cons.prems(1) have "mergeServiceLabels env obj rest
        (fold (\<lambda>(key, v). AList.update key v) (entries (svc_Selector s)) acc) = Inl e"
      by simp
    moreover from Cons.prems(2) have "\<forall>k \<in> set rest. 2 \<le> length (Split k CHR ''/'')" by simp
    ultimately show ?thesis by (rule Cons.IH)
  qed
qed

lemma PodController_sync_merge_error:
  assumes "\<not> pod_DeletionTimestamp obj"
    and "GetWorkloadsMatchingLabels env (pod_Namespace obj) (pod_Labels obj) = Some workloads"
    and "mergeServiceLabels env obj
           (collectServiceUUIDs (workloadServiceUUIDToDeploymentUUIDs w) workloads) [] = Inl e"
  shows "PodController_sync env key (Some obj) w = (Some e, w)"
  using assms by (simp add: PodController_sync_def)

lemma PodController_sync_merged:
  assumes "\<not> pod_DeletionTimestamp obj"
    and "GetWorkloadsMatchingLabels env (pod_Namespace obj) (pod_Labels obj) = Some workloads"
    and "mergeServiceLabels env obj
           (collectServiceUUIDs (workloadServiceUUIDToDeploymentUUIDs w) workloads) [] = Inr wsl"
  shows "PodController_sync env key (Some obj) w =
           (if DeepEqual (pod_Labels obj) (Some (rebuildLabels (pod_Labels obj) wsl)) then (None, w)
            else ((if podsUpdateFails env (obj\<lparr>pod_Labels := Some (rebuildLabels (pod_Labels obj) wsl)\<rparr>)
                   then Some (UpdatePodError (pod_Name obj)) else None),
                  w\<lparr>podUpdates := podUpdates w @
                       [obj\<lparr>pod_Labels := Some (rebuildLabels (pod_Labels obj) wsl)\<rparr>]\<rparr>))"
  using assms by (simp add: PodController_sync_def Let_def)

text \<open>
  C10. For a pod that is present and not deletion-marked, and a service key \<open>ns/name\<close> that
  the pod controller collects for it from the registry: the service is fetched under the
  pod's own namespace and the name cut from the key, whatever \<open>ns\<close> is. When the pod's
  namespace has no service of that name the sync fails and issues no update; when every
  collected key has its two parts, what it returns is the error of the service lookup.
  When it has one, and the key is the only one collected, the labels written are the pod's
  labels overlaid with the selector of that same-named service: the service stored under
  \<open>ns/name\<close> plays no part.
\<close>

theorem pod_sync_ignores_service_namespace:
  assumes nd: "\<not> pod_DeletionTimestamp obj"
    and wl: "GetWorkloadsMatchingLabels env (pod_Namespace obj) (pod_Labels obj) = Some workloads"
    and k: "objectKey ns name
              \<in> set (collectServiceUUIDs (workloadServiceUUIDToDeploymentUUIDs w) workloads)"
    and ns: "CHR ''/'' \<notin> set ns" and name: "CHR ''/'' \<notin> set name"
  shows "getWorkloadService env obj (objectKey ns name)
           = serviceLister_Get env (pod_Namespace obj) name
       \<and> ((\<forall>s \<in> set (serviceCache env).
              \<not> (svc_Namespace s = pod_Namespace obj \<and> svc_Name s = name)) \<longrightarrow>
            (\<exists>e. PodController_sync env key (Some obj) w = (Some e, w) \<and>
                 ((\<forall>k \<in> set (collectServiceUUIDs (workloadServiceUUIDToDeploymentUUIDs w)
                                  workloads). 2 \<le> length (Split k CHR ''/'')) \<longrightarrow>
                  (\<exists>n. e = GetServiceError (pod_Namespace obj) n))))
       \<and> (\<forall>s. collectServiceUUIDs (workloadServiceUUIDToDeploymentUUIDs w) workloads
                  = [objectKey ns name] \<and>
                serviceLister_Get env (pod_Namespace obj) name = Inr s \<longrightarrow>
              (\<exists>labels.
                 map_of labels =
                   (\<lambda>x. case index (svc_Selector s) x of
                          Some v \<Rightarrow> Some v
                        | None \<Rightarrow> if HasPrefix x WorkloadIDLabelPrefix then None
                                   else index (pod_Labels obj) x) \<and>
                 PodController_sync env key (Some obj) w =
                   (if DeepEqual (pod_Labels obj) (Some labels) then (None, w)
                    else ((if podsUpdateFails env (obj\<lparr>pod_Labels := Some labels\<rparr>)
                           then Some (UpdatePodError (pod_Name obj)) else None),
                          w\<lparr>podUpdates := podUpdates w @ [obj\<lparr>pod_Labels := Some labels\<rparr>]\<rparr>))))"
proof (intro conjI impI allI)
  show g: "getWorkloadService env obj (objectKey ns name)
           = serviceLister_Get env (pod_Namespace obj) name"
    by (rule getWorkloadService_objectKey [OF ns name])
  {
    assume "\<forall>s \<in> set (serviceCache env).
              \<not> (svc_Namespace s = pod_Namespace obj \<and> svc_Name s = name)"
    then have "getWorkloadService env obj (objectKey ns name)
                 = Inl (GetServiceError (pod_Namespace obj) name)"
      using g by (simp add: serviceLister_Get_missing)
    from mergeServiceLabels_fails [OF k this]
    obtain e where "mergeServiceLabels env obj
           (collectServiceUUIDs (workloadServiceUUIDToDeploymentUUIDs w) workloads) [] = Inl e"
      by blast
    note m = this
    have "(\<forall>k \<in> set (collectServiceUUIDs (workloadServiceUUIDToDeploymentUUIDs w)
                                  workloads). 2 \<le> length (Split k CHR ''/'')) \<longrightarrow>
                  (\<exists>n. e = GetServiceError (pod_Namespace obj) n)"
      using mergeServiceLabels_error_kind [OF m] by (rule impI)
    with PodController_sync_merge_error [OF nd wl m]
    show "\<exists>e. PodController_sync env key (Some obj) w = (Some e, w) \<and>
                 ((\<forall>k \<in> set (collectServiceUUIDs (workloadServiceUUIDToDeploymentUUIDs w)
                                  workloads). 2 \<le> length (Split k CHR ''/'')) \<longrightarrow>
                  (\<exists>n. e = GetServiceError (pod_Namespace obj) n))"
      by (intro exI conjI)
  }
  {
    fix s
    assume a: "collectServiceUUIDs (workloadServiceUUIDToDeploymentUUIDs w) workloads
                  = [objectKey ns name] \<and>
                serviceLister_Get env (pod_Namespace obj) name = Inr s"
    let ?wsl = "fold (\<lambda>(key, v). AList.update key v) (entries (svc_Selector s)) []"
    have m: "mergeServiceLabels env obj
           (collectServiceUUIDs (workloadServiceUUIDToDeploymentUUIDs w) workloads) [] = Inr ?wsl"
      using a g by simp
    have d: "distinct (map fst ?wsl)" by (rule distinct_fold_update) simp
    have w: "map_of ?wsl = index (svc_Selector s)"
      by (rule ext) (simp add: map_of_fold_update [OF distinct_entries] index_def split: option.splits)
    have "map_of (rebuildLabels (pod_Labels obj) ?wsl) =
                   (\<lambda>x. case index (svc_Selector s) x of
                          Some v \<Rightarrow> Some v
                        | None \<Rightarrow> if HasPrefix x WorkloadIDLabelPrefix then None
                                   else index (pod_Labels obj) x)"
      by (rule ext) (simp add: map_of_rebuildLabels [OF d] w)
    with PodController_sync_merged [OF nd wl m]
    show "\<exists>labels.
                 map_of labels =
                   (\<lambda>x. case index (svc_Selector s) x of
                          Some v \<Rightarrow> Some v
                        | None \<Rightarrow> if HasPrefix x WorkloadIDLabelPrefix then None
                                   else index (pod_Labels obj) x) \<and>
                 PodController_sync env key (Some obj) w =
                   (if DeepEqual (pod_Labels obj) (Some labels) then (None, w)
                    else ((if podsUpdateFails env (obj\<lparr>pod_Labels := Some labels\<rparr>)
                           then Some (UpdatePodError (pod_Name obj)) else None),
                          w\<lparr>podUpdates := podUpdates w @ [obj\<lparr>pod_Labels := Some labels\<rparr>]\<rparr>))"
      by blast
  }
qed


theorem pod_sync_ignores_service_namespace_witness:
  "\<not> pod_DeletionTimestamp (exPod ''p1'' (Some [(''app'', ''x'')]))
   \<and> objectKey ''other'' ''svc1''
       \<in> set (collectServiceUUIDs
                (workloadServiceUUIDToDeploymentUUIDs (exWorld [(''other/svc1'', [''default/wl1''])]))
                [exWorkload ''wl1'' [(''app'', ''x'')]])
   \<and> (\<exists>n. PodController_sync
             (exEnv [exWorkload ''wl1'' [(''app'', ''x'')]] []
                [exService ''other'' [] (Some [(''workloadID_svc1'', ''true'')])])
             ''default/p1'' (Some (exPod ''p1'' (Some [(''app'', ''x'')])))
             (exWorld [(''other/svc1'', [''default/wl1''])])
           = (Some (GetServiceError ''default'' n), exWorld [(''other/svc1'', [''default/wl1''])]))
   \<and> getWorkloadService
         (exEnv [exWorkload ''wl1'' [(''app'', ''x'')]] []
            [exService ''other'' [] (Some [(''workloadID_svc1'', ''true'')]),
             exService ''default'' [] (Some [(''tier'', ''db'')])])
         (exPod ''p1'' (Some [(''app'', ''x'')])) (objectKey ''other'' ''svc1'')
       = Inr (exService ''default'' [] (Some [(''tier'', ''db'')]))
   \<and> podUpdates (snd (PodController_sync
         (exEnv [exWorkload ''wl1'' [(''app'', ''x'')]] []
            [exService ''other'' [] (Some [(''workloadID_svc1'', ''true'')]),
             exService ''default'' [] (Some [(''tier'', ''db'')])])
         ''default/p1'' (Some (exPod ''p1'' (Some [(''app'', ''x'')])))
         (exWorld [(''other/svc1'', [''default/wl1''])])))
       = [exPod ''p1'' (Some [(''app'', ''x''), (''tier'', ''db'')])]"
proof -
  let ?pod = "exPod ''p1'' (Some [(''app'', ''x'')])"
  let ?w = "exWorld [(''other/svc1'', [''default/wl1''])]"
  let ?wls = "[exWorkload ''wl1'' [(''app'', ''x'')]]"
  let ?envA = "exEnv ?wls [] [exService ''other'' [] (Some [(''workloadID_svc1'', ''true'')])]"
  let ?envB = "exEnv ?wls []
            [exService ''other'' [] (Some [(''workloadID_svc1'', ''true'')]),
             exService ''default'' [] (Some [(''tier'', ''db'')])]"
  have nd: "\<not> pod_DeletionTimestamp ?pod" by (simp add: exPod_def)
  have wlA: "GetWorkloadsMatchingLabels ?envA (pod_Namespace ?pod) (pod_Labels ?pod) = Some ?wls"
    by (simp add: ex_defs model_defs)
  have wlB: "GetWorkloadsMatchingLabels ?envB (pod_Namespace ?pod) (pod_Labels ?pod) = Some ?wls"
    by (simp add: ex_defs model_defs)
  have k: "objectKey ''other'' ''svc1''
             \<in> set (collectServiceUUIDs (workloadServiceUUIDToDeploymentUUIDs ?w) ?wls)"
    by (simp add: ex_defs model_defs)
  have s1: "CHR ''/'' \<notin> set ''other''" and s2: "CHR ''/'' \<notin> set ''svc1''" by simp_all
  have missing: "\<forall>s \<in> set (serviceCache ?envA).
                   \<not> (svc_Namespace s = pod_Namespace ?pod \<and> svc_Name s = ''svc1'')"
    by (simp add: ex_defs)
  have wf: "\<forall>k \<in> set (collectServiceUUIDs (workloadServiceUUIDToDeploymentUUIDs ?w) ?wls).
              2 \<le> length (Split k CHR ''/'')"
    by (simp add: ex_defs model_defs)
  have pn: "pod_Namespace ?pod = ''default''" by (simp add: exPod_def)
  from pod_sync_ignores_service_namespace [OF nd wlA k s1 s2, of "''default/p1''"] missing
  obtain e where e1: "PodController_sync ?envA ''default/p1'' (Some ?pod) ?w = (Some e, ?w)"
    and e2: "(\<forall>k \<in> set (collectServiceUUIDs (workloadServiceUUIDToDeploymentUUIDs ?w) ?wls).
                 2 \<le> length (Split k CHR ''/'')) \<longrightarrow>
             (\<exists>n. e = GetServiceError (pod_Namespace ?pod) n)"
    by blast
  from mp [OF e2 wf] obtain n where "e = GetServiceError (pod_Namespace ?pod) n" ..
  with e1 pn
  have a: "\<exists>n. PodController_sync ?envA ''default/p1'' (Some ?pod) ?w
                 = (Some (GetServiceError ''default'' n), ?w)"
    by (intro exI [of _ n]) simp
  from pod_sync_ignores_service_namespace [OF nd wlB k s1 s2, of "''default/p1''"]
  have "getWorkloadService ?envB ?pod (objectKey ''other'' ''svc1'')
          = serviceLister_Get ?envB (pod_Namespace ?pod) ''svc1''"
    by blast
  then have b: "getWorkloadService ?envB ?pod (objectKey ''other'' ''svc1'')
          = Inr (exService ''default'' [] (Some [(''tier'', ''db'')]))"
    by (simp add: ex_defs serviceLister_Get_def)
  have c: "podUpdates (snd (PodController_sync ?envB ''default/p1'' (Some ?pod) ?w))
             = [exPod ''p1'' (Some [(''app'', ''x''), (''tier'', ''db'')])]"
    by (simp add: ex_defs model_defs)
  from nd k a b c show ?thesis by blast
qed

section \<open>What the service controller queues and writes\<close>























lemma podEffect_refl_fail: "podEffect env obj ids False w w"
  by (auto simp: podEffect_def)

lemma podEffect_weaken: "podEffect env obj ids ok w w' \<Longrightarrow> podEffect env obj ids False w w'"
  by (auto simp: podEffect_def)


section \<open>The cleanup sweep\<close>










section \<open>An identifier that does not resolve\<close>








section \<open>Labels that a pod update leaves alone\<close>




lemma serviceLister_Get_Inr:
  "serviceLister_Get env namespace name = Inr s \<Longrightarrow>
     s \<in> set (serviceCache env) \<and> svc_Namespace s = namespace \<and> svc_Name s = name"
  by (auto simp: serviceLister_Get_def find_Some_iff split: option.splits)

lemma getWorkloadService_Inr:
  "getWorkloadService env obj k = Inr s \<Longrightarrow>
     s \<in> set (serviceCache env) \<and> svc_Namespace s = pod_Namespace obj"
  using serviceLister_Get_Inr [of env "pod_Namespace obj" "Split k CHR ''/'' ! 1" s]
  by (auto simp: getWorkloadService_def Let_def split: if_splits)

lemma mergeServiceLabels_keys:
  "mergeServiceLabels env obj keys acc = Inr wsl \<Longrightarrow> distinct (map fst acc) \<Longrightarrow>
     distinct (map fst wsl) \<and>
     (\<forall>k. map_of wsl k \<noteq> None \<longrightarrow>
          map_of acc k \<noteq> None \<or>
          (\<exists>s \<in> set (serviceCache env). svc_Namespace s = pod_Namespace obj \<and>
                                          index (svc_Selector s) k \<noteq> None))"
proof (induction keys arbitrary: acc)
  case Nil
  then show ?case by simp
next
  case (Cons key rest)
  show ?case
  proof (cases "getWorkloadService env obj key")
    case (Inl e)
    with Cons.prems show ?thesis by simp
  next
    case (Inr s)
    let ?acc = "fold (\<lambda>(key, v). AList.update key v) (entries (svc_Selector s)) acc"
    from Cons.prems Inr have m: "mergeServiceLabels env obj rest ?acc = Inr wsl" by simp
    have d: "distinct (map fst ?acc)" by (rule distinct_fold_update [OF Cons.prems(2)])
    from Cons.IH [OF m d] have dw: "distinct (map fst wsl)"
      and ih: "\<forall>k. map_of wsl k \<noteq> None \<longrightarrow>
          map_of ?acc k \<noteq> None \<or>
          (\<exists>s \<in> set (serviceCache env). svc_Namespace s = pod_Namespace obj \<and>
                                          index (svc_Selector s) k \<noteq> None)"
      by blast+
    have acc: "\<And>k. map_of ?acc k \<noteq> None \<Longrightarrow> map_of acc k \<noteq> None \<or> index (svc_Selector s) k \<noteq> None"
      by (simp add: map_of_fold_update [OF distinct_entries] index_def split: option.splits)
    from getWorkloadService_Inr [OF Inr] have s: "s \<in> set (serviceCache env)"
      "svc_Namespace s = pod_Namespace obj" by simp_all
    have "\<forall>k. map_of wsl k \<noteq> None \<longrightarrow>
          map_of acc k \<noteq> None \<or>
          (\<exists>s \<in> set (serviceCache env). svc_Namespace s = pod_Namespace obj \<and>
                                          index (svc_Selector s) k \<noteq> None)"
    proof (intro allI impI)
      fix k assume "map_of wsl k \<noteq> None"
      with ih have "map_of ?acc k \<noteq> None \<or>
          (\<exists>s \<in> set (serviceCache env). svc_Namespace s = pod_Namespace obj \<and>
                                          index (svc_Selector s) k \<noteq> None)" by blast
      then show "map_of acc k \<noteq> None \<or>
          (\<exists>s \<in> set (serviceCache env). svc_Namespace s = pod_Namespace obj \<and>
                                          index (svc_Selector s) k \<noteq> None)"
        using acc [of k] s by blast
    qed
    with dw show ?thesis by blast
  qed
qed

lemma PodController_sync_cases:
  assumes "PodController_sync env key (Some p) w = (r, w')"
  shows "w' = w \<or>
         (\<exists>wsl. mergeServiceLabels env p
                   (collectServiceUUIDs (workloadServiceUUIDToDeploymentUUIDs w)
                      (the (GetWorkloadsMatchingLabels env (pod_Namespace p) (pod_Labels p)))) []
                 = Inr wsl \<and>
                w' = w\<lparr>podUpdates := podUpdates w @
                          [p\<lparr>pod_Labels := Some (rebuildLabels (pod_Labels p) wsl)\<rparr>]\<rparr>)"
proof (cases "pod_DeletionTimestamp p")
  case True
  with assms show ?thesis by (simp add: PodController_sync_def)
next
  case nd: False
  show ?thesis
  proof (cases "GetWorkloadsMatchingLabels env (pod_Namespace p) (pod_Labels p)")
    case None
    with assms nd show ?thesis by (simp add: PodController_sync_def)
  next
    case (Some workloads)
    show ?thesis
    proof (cases "mergeServiceLabels env p
                   (collectServiceUUIDs (workloadServiceUUIDToDeploymentUUIDs w) workloads) []")
      case (Inl e)
      from PodController_sync_merge_error [OF nd Some Inl] assms show ?thesis by simp
    next
      case (Inr wsl)
      from PodController_sync_merged [OF nd Some Inr, of key] assms Some Inr show ?thesis
        by (auto split: if_splits)
    qed
  qed
qed





section \<open>The order of the collected services\<close>

lemma selectorsAgreeD:
  "selectorsAgree s t \<Longrightarrow> index (svc_Selector s) x = Some v \<Longrightarrow>
     index (svc_Selector t) x = Some v' \<Longrightarrow> v' = v"
proof -
  assume a: "selectorsAgree s t" and s: "index (svc_Selector s) x = Some v"
    and t: "index (svc_Selector t) x = Some v'"
  from s have "(x, v) \<in> set (entries (svc_Selector s))" by (simp add: entries_member_index)
  with a have "case index (svc_Selector t) x of None \<Rightarrow> True | Some v' \<Rightarrow> v' = v"
    unfolding selectorsAgree_def list_all_iff by fast
  with t show "v' = v" by simp
qed

lemma clearjunk_member: "(k, v) \<in> set (AList.clearjunk al) \<longleftrightarrow> map_of al k = Some v"
  using map_of_eq_Some_iff [OF distinct_clearjunk, of al k v] by (simp add: map_of_clearjunk)

lemma set_rangeRegistry:
  "set (rangeRegistry reg d) = {k. \<exists>v. map_of reg k = Some v \<and> d \<in> set v}"
proof -
  have "set (rangeRegistry reg d) = {k. \<exists>v. (k, v) \<in> set (AList.clearjunk reg) \<and> d \<in> set v}"
    unfolding rangeRegistry_def by force
  then show ?thesis by (simp only: clearjunk_member)
qed

lemma set_collectServiceUUIDs:
  "map_of r1 = map_of r2 \<Longrightarrow>
     set (collectServiceUUIDs r1 workloads) = set (collectServiceUUIDs r2 workloads)"
  by (simp add: collectServiceUUIDs_def set_rangeRegistry)

lemma mergeServiceLabels_Cons_Inr:
  "getWorkloadService env obj k = Inr s \<Longrightarrow>
     mergeServiceLabels env obj (k # rest) acc =
       mergeServiceLabels env obj rest
         (fold (\<lambda>(key, v). AList.update key v) (entries (svc_Selector s)) acc)"
  by simp

lemma mergeServiceLabels_succeeds_iff:
  "(\<exists>wsl. mergeServiceLabels env obj keys acc = Inr wsl) \<longleftrightarrow>
     (\<forall>k \<in> set keys. \<exists>s. getWorkloadService env obj k = Inr s)"
proof (induction keys arbitrary: acc)
  case Nil
  show ?case by simp
next
  case (Cons k rest)
  show ?case
  proof (cases "getWorkloadService env obj k")
    case (Inl e)
    then show ?thesis by simp
  next
    case (Inr s)
    show ?thesis
      unfolding mergeServiceLabels_Cons_Inr [OF Inr] Cons.IH
      using Inr by simp
  qed
qed

lemma mergeServiceLabels_map:
  assumes m: "mergeServiceLabels env obj keys acc = Inr wsl"
    and agree: "\<forall>k1 \<in> set keys. \<forall>k2 \<in> set keys. \<forall>s1 s2.
                  getWorkloadService env obj k1 = Inr s1 \<and> getWorkloadService env obj k2 = Inr s2
                  \<longrightarrow> selectorsAgree s1 s2"
  shows "map_of wsl x = Some v \<longleftrightarrow>
           (\<exists>k \<in> set keys. \<exists>s. getWorkloadService env obj k = Inr s \<and>
                                 index (svc_Selector s) x = Some v)
           \<or> (map_of acc x = Some v \<and>
               (\<forall>k \<in> set keys. \<forall>s. getWorkloadService env obj k = Inr s \<longrightarrow>
                                     index (svc_Selector s) x = None))"
  using m agree
proof (induction keys arbitrary: acc)
  case Nil
  then show ?case by simp
next
  case (Cons k0 rest)
  define D where "D ks \<longleftrightarrow> (\<exists>k \<in> set ks. \<exists>s. getWorkloadService env obj k = Inr s \<and>
                                 index (svc_Selector s) x = Some v)" for ks
  define N where "N ks \<longleftrightarrow> (\<forall>k \<in> set ks. \<forall>s. getWorkloadService env obj k = Inr s \<longrightarrow>
                                     index (svc_Selector s) x = None)" for ks
  from Cons.prems(1) obtain s0 where g0: "getWorkloadService env obj k0 = Inr s0"
    by (cases "getWorkloadService env obj k0") simp_all
  let ?acc = "fold (\<lambda>(key, v). AList.update key v) (entries (svc_Selector s0)) acc"
  from Cons.prems(1) have m': "mergeServiceLabels env obj rest ?acc = Inr wsl"
    by (simp only: mergeServiceLabels_Cons_Inr [OF g0])
  have agree_rest: "\<forall>k1 \<in> set rest. \<forall>k2 \<in> set rest. \<forall>s1 s2.
                  getWorkloadService env obj k1 = Inr s1 \<and> getWorkloadService env obj k2 = Inr s2
                  \<longrightarrow> selectorsAgree s1 s2"
    using Cons.prems(2) by simp
  from Cons.IH [OF m' agree_rest]
  have ih: "map_of wsl x = Some v \<longleftrightarrow> D rest \<or> (map_of ?acc x = Some v \<and> N rest)"
    by (simp only: D_def N_def)
  have accx: "map_of ?acc x =
                (case index (svc_Selector s0) x of Some v \<Rightarrow> Some v | None \<Rightarrow> map_of acc x)"
    by (simp add: map_of_fold_update [OF distinct_entries] index_def)
  have Dc: "D (k0 # rest) \<longleftrightarrow> index (svc_Selector s0) x = Some v \<or> D rest"
    using g0 by (simp add: D_def)
  have Nc: "N (k0 # rest) \<longleftrightarrow> index (svc_Selector s0) x = None \<and> N rest"
    using g0 by (simp add: N_def)
  have goal: "map_of wsl x = Some v \<longleftrightarrow> D (k0 # rest) \<or> (map_of acc x = Some v \<and> N (k0 # rest))"
  proof (cases "index (svc_Selector s0) x")
    case None
    then show ?thesis by (simp add: ih accx Dc Nc)
  next
    case (Some v0)
    have ag: "\<not> N rest \<Longrightarrow> v = v0 \<Longrightarrow> D rest"
    proof -
      assume "\<not> N rest" and vv: "v = v0"
      then obtain k s where k: "k \<in> set rest" and g: "getWorkloadService env obj k = Inr s"
        and nn: "index (svc_Selector s) x \<noteq> None"
        unfolding N_def by blast
      from nn obtain v' where sv: "index (svc_Selector s) x = Some v'" by (cases "index (svc_Selector s) x") simp_all
      from Cons.prems(2) k g g0 have "selectorsAgree s0 s" by simp
      from selectorsAgreeD [OF this Some sv] have "v' = v0" .
      with sv vv k g show "D rest" unfolding D_def by blast
    qed
    show ?thesis
    proof (cases "N rest")
      case True
      with Some show ?thesis by (simp add: ih accx Dc Nc) blast
    next
      case False
      with ag Some show ?thesis by (simp add: ih accx Dc Nc) blast
    qed
  qed
  then show ?case by (simp only: D_def N_def)
qed

lemma option_eq_by_Some: "(\<And>v. (a = Some v) = (b = Some v)) \<Longrightarrow> a = b"
proof (cases a)
  case None
  assume h: "\<And>v. (a = Some v) = (b = Some v)"
  show ?thesis
  proof (cases b)
    case None
    with \<open>a = None\<close> show ?thesis by simp
  next
    case (Some w)
    with h [of w] have "a = Some w" by simp
    with \<open>a = None\<close> show ?thesis by simp
  qed
next
  case (Some w)
  assume h: "\<And>v. (a = Some v) = (b = Some v)"
  with h [of w] Some show ?thesis by simp
qed

lemma DeepEqual_cong_map:
  "map_of a = map_of b \<Longrightarrow> DeepEqual m (Some a) = DeepEqual m (Some b)"
proof (cases m)
  case None
  then show ?thesis by (simp add: DeepEqual_def)
next
  case (Some xs)
  assume "map_of a = map_of b"
  then show ?thesis by (simp only: Some DeepEqual_Some_iff)
qed

lemma mergeServiceLabels_same_set:
  assumes s: "set keys1 = set keys2"
    and agree: "\<forall>k1 \<in> set keys1. \<forall>k2 \<in> set keys1. \<forall>s1 s2.
                  getWorkloadService env obj k1 = Inr s1 \<and> getWorkloadService env obj k2 = Inr s2
                  \<longrightarrow> selectorsAgree s1 s2"
    and m1: "mergeServiceLabels env obj keys1 [] = Inr d1"
  shows "\<exists>d2. mergeServiceLabels env obj keys2 [] = Inr d2 \<and> map_of d1 = map_of d2"
proof -
  from m1 have "\<forall>k \<in> set keys1. \<exists>s. getWorkloadService env obj k = Inr s"
    using mergeServiceLabels_succeeds_iff [of env obj keys1 "[]"] by blast
  then have "\<forall>k \<in> set keys2. \<exists>s. getWorkloadService env obj k = Inr s"
    by (simp only: s)
  then obtain d2 where m2: "mergeServiceLabels env obj keys2 [] = Inr d2"
    using mergeServiceLabels_succeeds_iff [of env obj keys2 "[]"] by blast
  from agree have agree2: "\<forall>k1 \<in> set keys2. \<forall>k2 \<in> set keys2. \<forall>s1 s2.
                  getWorkloadService env obj k1 = Inr s1 \<and> getWorkloadService env obj k2 = Inr s2
                  \<longrightarrow> selectorsAgree s1 s2"
    by (simp only: s)
  have "map_of d1 = map_of d2"
  proof
    fix x
    have "\<And>v. (map_of d1 x = Some v) = (map_of d2 x = Some v)"
      unfolding mergeServiceLabels_map [OF m1 agree] mergeServiceLabels_map [OF m2 agree2]
      by (simp only: s)
    then show "map_of d1 x = map_of d2 x"
      by (rule option_eq_by_Some)
  qed
  with m2 show ?thesis by (intro exI conjI)
qed

lemma writtenLabels_snoc:
  "writtenLabels (w\<lparr>podUpdates := podUpdates w @ [u]\<rparr>) =
     writtenLabels w @ [(pod_Namespace u, pod_Name u, index (pod_Labels u))]"
  by (simp add: writtenLabels_def)

lemma index_cong_map: "map_of a = map_of b \<Longrightarrow> index (Some a) = index (Some b)"
  by (rule ext) (simp add: index_Some)

text \<open>
  C2, amended. The pod controller collects the service keys in the order in which the
  registry is ranged over, without sorting or deduplication. For a pod and two registries
  with the same contents, when no two services fetched for the collected keys give one
  label key different values: if the merge of one run yields a desired label set, the merge
  of the other yields the same set of pairs, and the two runs write the same pod labels.
\<close>

theorem pod_sync_independent_of_registry_order:
  assumes same: "map_of r2 = map_of (workloadServiceUUIDToDeploymentUUIDs w)"
    and agree: "\<forall>workloads.
        GetWorkloadsMatchingLabels env (pod_Namespace obj) (pod_Labels obj) = Some workloads \<longrightarrow>
        (\<forall>k1 \<in> set (collectServiceUUIDs (workloadServiceUUIDToDeploymentUUIDs w) workloads).
         \<forall>k2 \<in> set (collectServiceUUIDs (workloadServiceUUIDToDeploymentUUIDs w) workloads).
         \<forall>s1 s2. getWorkloadService env obj k1 = Inr s1 \<and> getWorkloadService env obj k2 = Inr s2
                  \<longrightarrow> selectorsAgree s1 s2)"
  shows "(\<forall>workloads d1.
            GetWorkloadsMatchingLabels env (pod_Namespace obj) (pod_Labels obj) = Some workloads \<and>
            mergeServiceLabels env obj
              (collectServiceUUIDs (workloadServiceUUIDToDeploymentUUIDs w) workloads) [] = Inr d1 \<longrightarrow>
            (\<exists>d2. mergeServiceLabels env obj (collectServiceUUIDs r2 workloads) [] = Inr d2 \<and>
                  map_of d1 = map_of d2))
       \<and> writtenLabels (snd (PodController_sync env key (Some obj) w))
           = writtenLabels (snd (PodController_sync env key (Some obj)
                                   (w\<lparr>workloadServiceUUIDToDeploymentUUIDs := r2\<rparr>)))"
proof
  show "\<forall>workloads d1.
            GetWorkloadsMatchingLabels env (pod_Namespace obj) (pod_Labels obj) = Some workloads \<and>
            mergeServiceLabels env obj
              (collectServiceUUIDs (workloadServiceUUIDToDeploymentUUIDs w) workloads) [] = Inr d1 \<longrightarrow>
            (\<exists>d2. mergeServiceLabels env obj (collectServiceUUIDs r2 workloads) [] = Inr d2 \<and>
                  map_of d1 = map_of d2)"
  proof (intro allI impI)
    fix workloads d1
    assume a: "GetWorkloadsMatchingLabels env (pod_Namespace obj) (pod_Labels obj) = Some workloads \<and>
            mergeServiceLabels env obj
              (collectServiceUUIDs (workloadServiceUUIDToDeploymentUUIDs w) workloads) [] = Inr d1"
    from a agree have ag: "\<forall>k1 \<in> set (collectServiceUUIDs (workloadServiceUUIDToDeploymentUUIDs w) workloads).
         \<forall>k2 \<in> set (collectServiceUUIDs (workloadServiceUUIDToDeploymentUUIDs w) workloads).
         \<forall>s1 s2. getWorkloadService env obj k1 = Inr s1 \<and> getWorkloadService env obj k2 = Inr s2
                  \<longrightarrow> selectorsAgree s1 s2"
      by (metis (no_types))
    from a have m1: "mergeServiceLabels env obj
              (collectServiceUUIDs (workloadServiceUUIDToDeploymentUUIDs w) workloads) [] = Inr d1"
      by (rule conjunct2)
    from mergeServiceLabels_same_set [OF set_collectServiceUUIDs [OF same [symmetric]] ag m1]
    show "\<exists>d2. mergeServiceLabels env obj (collectServiceUUIDs r2 workloads) [] = Inr d2 \<and>
                  map_of d1 = map_of d2" .
  qed
  then have desired: "\<And>workloads d1.
            GetWorkloadsMatchingLabels env (pod_Namespace obj) (pod_Labels obj) = Some workloads \<Longrightarrow>
            mergeServiceLabels env obj
              (collectServiceUUIDs (workloadServiceUUIDToDeploymentUUIDs w) workloads) [] = Inr d1 \<Longrightarrow>
            (\<exists>d2. mergeServiceLabels env obj (collectServiceUUIDs r2 workloads) [] = Inr d2 \<and>
                  map_of d1 = map_of d2)"
    by (metis (no_types))
  let ?w2 = "w\<lparr>workloadServiceUUIDToDeploymentUUIDs := r2\<rparr>"
  show "writtenLabels (snd (PodController_sync env key (Some obj) w))
           = writtenLabels (snd (PodController_sync env key (Some obj) ?w2))"
  proof (cases "pod_DeletionTimestamp obj")
    case True
    then show ?thesis by (simp add: PodController_sync_def writtenLabels_def)
  next
    case nd: False
    show ?thesis
    proof (cases "GetWorkloadsMatchingLabels env (pod_Namespace obj) (pod_Labels obj)")
      case None
      with nd show ?thesis by (simp add: PodController_sync_def writtenLabels_def)
    next
      case (Some workloads)
      let ?k1 = "collectServiceUUIDs (workloadServiceUUIDToDeploymentUUIDs w) workloads"
      let ?k2 = "collectServiceUUIDs r2 workloads"
      have ks: "set ?k1 = set ?k2" by (rule set_collectServiceUUIDs [OF same [symmetric]])
      have reg2: "workloadServiceUUIDToDeploymentUUIDs ?w2 = r2" by simp
      show ?thesis
      proof (cases "mergeServiceLabels env obj ?k1 []")
        case (Inl e1)
        have "\<not> (\<exists>wsl. mergeServiceLabels env obj ?k1 [] = Inr wsl)" using Inl by simp
        then have "\<not> (\<exists>wsl. mergeServiceLabels env obj ?k2 [] = Inr wsl)"
          unfolding mergeServiceLabels_succeeds_iff ks .
        then obtain e2 where m2: "mergeServiceLabels env obj ?k2 [] = Inl e2"
          by (cases "mergeServiceLabels env obj ?k2 []") simp_all
        have a: "PodController_sync env key (Some obj) w = (Some e1, w)"
          by (rule PodController_sync_merge_error [OF nd Some Inl])
        have b: "PodController_sync env key (Some obj) ?w2 = (Some e2, ?w2)"
          by (rule PodController_sync_merge_error [OF nd Some]) (simp only: reg2 m2)
        show ?thesis by (simp add: a b writtenLabels_def)
      next
        case (Inr d1)
        from desired [OF Some Inr] obtain d2 where m2: "mergeServiceLabels env obj ?k2 [] = Inr d2"
          and eq: "map_of d1 = map_of d2" by blast
        from mergeServiceLabels_keys [OF Inr] have dd1: "distinct (map fst d1)" by simp
        from mergeServiceLabels_keys [OF m2] have dd2: "distinct (map fst d2)" by simp
        let ?L1 = "rebuildLabels (pod_Labels obj) d1"
        let ?L2 = "rebuildLabels (pod_Labels obj) d2"
        have L: "map_of ?L1 = map_of ?L2"
          by (rule ext) (simp add: map_of_rebuildLabels [OF dd1] map_of_rebuildLabels [OF dd2] eq)
        have de: "DeepEqual (pod_Labels obj) (Some ?L1) = DeepEqual (pod_Labels obj) (Some ?L2)"
          by (rule DeepEqual_cong_map [OF L])
        have ix: "index (Some ?L1) = index (Some ?L2)" by (rule index_cong_map [OF L])
        have m2': "mergeServiceLabels env obj
                     (collectServiceUUIDs (workloadServiceUUIDToDeploymentUUIDs ?w2) workloads) []
                   = Inr d2" by (simp only: reg2 m2)
        note a = PodController_sync_merged [OF nd Some Inr, of key]
        note b = PodController_sync_merged [OF nd Some m2', of key]
        show ?thesis
        proof (cases "DeepEqual (pod_Labels obj) (Some ?L1)")
          case True
          with de have "DeepEqual (pod_Labels obj) (Some ?L2)" by simp
          with True a b show ?thesis by (simp add: writtenLabels_def)
        next
          case False
          with de have "\<not> DeepEqual (pod_Labels obj) (Some ?L2)" by simp
          with False a b show ?thesis by (simp add: writtenLabels_def ix)
        qed
      qed
    qed
  qed
qed

text \<open>
  C2. The claim: the pod controller collects the service keys deduplicated and in
  lexicographic order, so that two runs on the same pod and the same external state write
  the same labels even when two collected services give one label key different values.
  The code appends the keys in the order in which the registry is ranged over, once for
  every matched workload, and neither sorts nor deduplicates. Services \<open>a\<close> and \<open>b\<close> select
  on \<open>tier = 1\<close> and \<open>tier = 2\<close>; with the same registry contents ranged over in the two
  orders the pod is written with \<open>tier = 2\<close> and with \<open>tier = 1\<close>. A key is collected in the
  order found (\<open>b\<close> before \<open>a\<close>) and twice when two matched workloads are targets of it.
\<close>

theorem registry_order_decides_conflict_counterexample:
  "map_of registryBA = map_of registryAB
   \<and> collectServiceUUIDs registryBA [exWorkload ''wl1'' [(''app'', ''x'')]]
       = [''default/b'', ''default/a'']
   \<and> collectServiceUUIDs [(''default/a'', [''default/wl1'', ''default/wl2''])]
         [exWorkload ''wl1'' [(''app'', ''x'')], exWorkload ''wl2'' [(''app'', ''x'')]]
       = [''default/a'', ''default/a'']
   \<and> podUpdates (snd (PodController_sync
          (orderEnv [exNamed ''a'' [(''tier'', ''1'')], exNamed ''b'' [(''tier'', ''2'')]])
          ''default/p1'' (Some orderPod) (exWorld registryAB)))
       = [exPod ''p1'' (Some [(''app'', ''x''), (''tier'', ''2'')])]
   \<and> podUpdates (snd (PodController_sync
          (orderEnv [exNamed ''a'' [(''tier'', ''1'')], exNamed ''b'' [(''tier'', ''2'')]])
          ''default/p1'' (Some orderPod) (exWorld registryBA)))
       = [exPod ''p1'' (Some [(''app'', ''x''), (''tier'', ''1'')])]"
proof -
  have "map_of registryBA = map_of registryAB"
    by (rule ext) (simp add: order_defs)
  then show ?thesis
    by (simp add: order_defs ex_defs model_defs)
qed

theorem pod_sync_independent_of_registry_order_witness:
  "map_of registryBA = map_of (workloadServiceUUIDToDeploymentUUIDs (exWorld registryAB))
   \<and> selectorsAgree (exNamed ''a'' [(''tier'', ''1''), (''workloadID_a'', ''true'')])
                    (exNamed ''b'' [(''tier'', ''1''), (''workloadID_b'', ''true'')])
   \<and> podUpdates (snd (PodController_sync
          (orderEnv [exNamed ''a'' [(''tier'', ''1''), (''workloadID_a'', ''true'')],
                     exNamed ''b'' [(''tier'', ''1''), (''workloadID_b'', ''true'')]])
          ''default/p1'' (Some orderPod) (exWorld registryAB)))
       = [exPod ''p1'' (Some [(''app'', ''x''), (''tier'', ''1''), (''workloadID_a'', ''true''),
                              (''workloadID_b'', ''true'')])]
   \<and> writtenLabels (snd (PodController_sync
          (orderEnv [exNamed ''a'' [(''tier'', ''1''), (''workloadID_a'', ''true'')],
                     exNamed ''b'' [(''tier'', ''1''), (''workloadID_b'', ''true'')]])
          ''default/p1'' (Some orderPod) (exWorld registryAB)))
       = writtenLabels (snd (PodController_sync
          (orderEnv [exNamed ''a'' [(''tier'', ''1''), (''workloadID_a'', ''true'')],
                     exNamed ''b'' [(''tier'', ''1''), (''workloadID_b'', ''true'')]])
          ''default/p1'' (Some orderPod)
          ((exWorld registryAB)\<lparr>workloadServiceUUIDToDeploymentUUIDs := registryBA\<rparr>)))"
proof -
  let ?sa = "exNamed ''a'' [(''tier'', ''1''), (''workloadID_a'', ''true'')]"
  let ?sb = "exNamed ''b'' [(''tier'', ''1''), (''workloadID_b'', ''true'')]"
  let ?env = "orderEnv [?sa, ?sb]"
  have same: "map_of registryBA = map_of (workloadServiceUUIDToDeploymentUUIDs (exWorld registryAB))"
    by (rule ext) (simp add: order_defs exWorld_def)
  have ab: "selectorsAgree ?sa ?sb" and ba: "selectorsAgree ?sb ?sa"
    and aa: "selectorsAgree ?sa ?sa" and bb: "selectorsAgree ?sb ?sb"
    by (simp_all add: selectorsAgree_def order_defs ex_defs model_defs)
  have wl: "GetWorkloadsMatchingLabels ?env (pod_Namespace orderPod) (pod_Labels orderPod)
              = Some [exWorkload ''wl1'' [(''app'', ''x'')]]"
    by (simp add: order_defs ex_defs model_defs)
  have keys: "collectServiceUUIDs (workloadServiceUUIDToDeploymentUUIDs (exWorld registryAB))
                [exWorkload ''wl1'' [(''app'', ''x'')]] = [''default/a'', ''default/b'']"
    by (simp add: order_defs ex_defs model_defs)
  have ga: "getWorkloadService ?env orderPod ''default/a'' = Inr ?sa"
    by (simp add: order_defs ex_defs model_defs)
  have gb: "getWorkloadService ?env orderPod ''default/b'' = Inr ?sb"
    by (simp add: order_defs ex_defs model_defs)
  have agree: "\<forall>workloads.
        GetWorkloadsMatchingLabels ?env (pod_Namespace orderPod) (pod_Labels orderPod) = Some workloads \<longrightarrow>
        (\<forall>k1 \<in> set (collectServiceUUIDs (workloadServiceUUIDToDeploymentUUIDs (exWorld registryAB)) workloads).
         \<forall>k2 \<in> set (collectServiceUUIDs (workloadServiceUUIDToDeploymentUUIDs (exWorld registryAB)) workloads).
         \<forall>s1 s2. getWorkloadService ?env orderPod k1 = Inr s1 \<and> getWorkloadService ?env orderPod k2 = Inr s2
                  \<longrightarrow> selectorsAgree s1 s2)"
  proof (intro allI impI)
    fix workloads
    assume "GetWorkloadsMatchingLabels ?env (pod_Namespace orderPod) (pod_Labels orderPod) = Some workloads"
    with wl have w: "workloads = [exWorkload ''wl1'' [(''app'', ''x'')]]" by simp
    show "\<forall>k1 \<in> set (collectServiceUUIDs (workloadServiceUUIDToDeploymentUUIDs (exWorld registryAB)) workloads).
         \<forall>k2 \<in> set (collectServiceUUIDs (workloadServiceUUIDToDeploymentUUIDs (exWorld registryAB)) workloads).
         \<forall>s1 s2. getWorkloadService ?env orderPod k1 = Inr s1 \<and> getWorkloadService ?env orderPod k2 = Inr s2
                  \<longrightarrow> selectorsAgree s1 s2"
      unfolding w keys using ga gb ab ba aa bb by simp
  qed
  have ev: "podUpdates (snd (PodController_sync ?env ''default/p1'' (Some orderPod) (exWorld registryAB)))
       = [exPod ''p1'' (Some [(''app'', ''x''), (''tier'', ''1''), (''workloadID_a'', ''true''),
                              (''workloadID_b'', ''true'')])]"
    by (simp add: order_defs ex_defs model_defs)
  from pod_sync_independent_of_registry_order [OF same agree, of "''default/p1''"]
  have "writtenLabels (snd (PodController_sync ?env ''default/p1'' (Some orderPod) (exWorld registryAB)))
       = writtenLabels (snd (PodController_sync ?env ''default/p1'' (Some orderPod)
          ((exWorld registryAB)\<lparr>workloadServiceUUIDToDeploymentUUIDs := registryBA\<rparr>)))"
    by (rule conjunct2)
  with same ab ev show ?thesis by (intro conjI)
qed

section \<open>Further facts about the loops and the guard\<close>

text \<open>
  The inner loop of \<open>updatePods\<close> appends a pod once for every pair of the selector that
  the pod misses.
\<close>

lemma queuePod_replicate:
  "queuePod sel pod acc =
     acc @ replicate (length (filter (\<lambda>(k, v). index (pod_Labels pod) k \<noteq> Some v) sel)) pod"
  by (induction sel pod acc rule: queuePod.induct) (simp_all add: replicate_app_Cons_same)

text \<open>
  The guard of the pod controller on a pod whose label map is present (not nil): when the
  recomputed labels have the same keys and values as the pod's, no update is issued. A run
  issues at most one update, and a second run on the pod as written by the first, with the
  same workload matches, issues none.
\<close>

lemma mergeServiceLabels_pod_cong:
  assumes e: "pod_Namespace obj' = pod_Namespace obj"
  shows "mergeServiceLabels env obj' keys acc = mergeServiceLabels env obj keys acc"
proof -
  have g: "\<And>k. getWorkloadService env obj' k = getWorkloadService env obj k"
    by (simp only: getWorkloadService_def e)
  show ?thesis
    by (induction keys arbitrary: acc) (simp_all add: g split: sum.splits)
qed

lemma rebuildLabels_idem:
  assumes "distinct (map fst wsl)"
  shows "map_of (rebuildLabels (Some (rebuildLabels old wsl)) wsl) = map_of (rebuildLabels old wsl)"
  by (rule ext)
     (simp add: map_of_rebuildLabels [OF assms] index_Some split: option.splits)

lemma pod_guard_holds_for_present_labels:
  assumes nd: "\<not> pod_DeletionTimestamp obj"
    and wl: "GetWorkloadsMatchingLabels env (pod_Namespace obj) (pod_Labels obj) = Some workloads"
    and m: "mergeServiceLabels env obj
              (collectServiceUUIDs (workloadServiceUUIDToDeploymentUUIDs w) workloads) [] = Inr wsl"
    and present: "pod_Labels obj = Some xs"
    and equal: "map_of (rebuildLabels (pod_Labels obj) wsl) = map_of xs"
  shows "PodController_sync env key (Some obj) w = (None, w)"
proof -
  have "DeepEqual (pod_Labels obj) (Some (rebuildLabels (pod_Labels obj) wsl))"
    unfolding present DeepEqual_Some_iff using equal by (simp add: present)
  with PodController_sync_merged [OF nd wl m, of key] show ?thesis by simp
qed

lemma pod_sync_at_most_one_update:
  "PodController_sync env key (Some obj) w = (r, w') \<Longrightarrow>
     podUpdates w' = podUpdates w \<or> (\<exists>u. podUpdates w' = podUpdates w @ [u])"
  using PodController_sync_cases [of env key obj w r w'] by auto

lemma pod_sync_second_run_is_noop:
  assumes first: "PodController_sync env key (Some obj) w = (r, w1)"
    and issued: "podUpdates w1 = podUpdates w @ [u]"
    and fixed: "GetWorkloadsMatchingLabels env (pod_Namespace obj) (pod_Labels u)
                  = GetWorkloadsMatchingLabels env (pod_Namespace obj) (pod_Labels obj)"
  shows "PodController_sync env key (Some u) w1 = (None, w1)"
proof -
  let ?ws = "the (GetWorkloadsMatchingLabels env (pod_Namespace obj) (pod_Labels obj))"
  from PodController_sync_cases [OF first] issued
  obtain wsl where m: "mergeServiceLabels env obj
                   (collectServiceUUIDs (workloadServiceUUIDToDeploymentUUIDs w) ?ws) [] = Inr wsl"
    and w1: "w1 = w\<lparr>podUpdates := podUpdates w @
                          [obj\<lparr>pod_Labels := Some (rebuildLabels (pod_Labels obj) wsl)\<rparr>]\<rparr>"
    by auto
  from issued w1 have u: "u = obj\<lparr>pod_Labels := Some (rebuildLabels (pod_Labels obj) wsl)\<rparr>"
    by simp
  have nd: "\<not> pod_DeletionTimestamp obj"
  proof
    assume "pod_DeletionTimestamp obj"
    with first have "w1 = w" by (simp add: PodController_sync_def)
    with issued show False by simp
  qed
  obtain workloads where wl: "GetWorkloadsMatchingLabels env (pod_Namespace obj) (pod_Labels obj)
                                = Some workloads"
  proof (cases "GetWorkloadsMatchingLabels env (pod_Namespace obj) (pod_Labels obj)")
    case None
    with first nd have "w1 = w" by (simp add: PodController_sync_def)
    with issued show ?thesis by simp
  next
    case (Some a)
    then show ?thesis by (rule that)
  qed
  from mergeServiceLabels_keys [OF m] have d: "distinct (map fst wsl)" by simp
  have ndu: "\<not> pod_DeletionTimestamp u" using nd u by simp
  have nsu: "pod_Namespace u = pod_Namespace obj" using u by simp
  have wlu: "GetWorkloadsMatchingLabels env (pod_Namespace u) (pod_Labels u) = Some workloads"
    using fixed wl nsu by simp
  have reg: "workloadServiceUUIDToDeploymentUUIDs w1 = workloadServiceUUIDToDeploymentUUIDs w"
    using w1 by simp
  have mu: "mergeServiceLabels env u
              (collectServiceUUIDs (workloadServiceUUIDToDeploymentUUIDs w1) workloads) [] = Inr wsl"
    using m wl by (simp add: reg mergeServiceLabels_pod_cong [OF nsu])
  have lu: "pod_Labels u = Some (rebuildLabels (pod_Labels obj) wsl)" using u by simp
  have eq: "map_of (rebuildLabels (pod_Labels u) wsl) = map_of (rebuildLabels (pod_Labels obj) wsl)"
    unfolding lu by (rule rebuildLabels_idem [OF d])
  show ?thesis
    by (rule pod_guard_holds_for_present_labels [OF ndu wlu mu lu eq])
qed

text \<open>
  When the decoder leaves the slice empty whenever it reports an error, a service whose
  payload fails to decode is left alone: the sync logs the failure and does nothing else.
\<close>

lemma undecodable_empty_is_noop:
  assumes nd: "\<not> svc_DeletionTimestamp obj"
    and empty: "\<forall>v. snd (jsonUnmarshal env v) \<longrightarrow> fst (jsonUnmarshal env v) = []"
    and failed: "DebugFailedToUnmarshal \<in> set (snd (isWorkloadService env obj))"
  shows "Controller_sync env key (Some obj) w =
           (None, w\<lparr>logged := logged w @ [DebugFailedToUnmarshal]\<rparr>)"
proof -
  from failed obtain anns v where a: "svc_Annotations obj = Some anns"
    and b: "map_of anns (WorkloadAnnotation env) = Some v" and c: "v \<noteq> []"
    and dd: "map_of anns (WorkloadAnnotatioNoop env) \<noteq> Some ''true''"
    and f: "snd (jsonUnmarshal env v)"
    by (auto simp: isWorkloadService_def split: option.splits if_splits prod.splits)
  from empty f have e: "fst (jsonUnmarshal env v) = []" by blast
  from a b c dd f e have "isWorkloadService env obj = ([], [DebugFailedToUnmarshal])"
    by (cases "jsonUnmarshal env v") (simp add: isWorkloadService_def)
  with nd show ?thesis by (simp add: Controller_sync_def)
qed

end
